theory Spec2Isabelle
  imports Main "HOL-Library.Sublist" "HOL-Library.AList"
begin

section \<open>Logging setup (log.go)\<close>

text \<open>
  \<^verbatim>\<open>slog.Level\<close> is an integer type of the Go standard library; the four named levels are
  the constants below (\<^verbatim>\<open>LevelDebug = -4\<close>, \<^verbatim>\<open>LevelInfo = 0\<close>, \<^verbatim>\<open>LevelWarn = 4\<close>,
  \<^verbatim>\<open>LevelError = 8\<close>).
\<close>

type_synonym Level = int

definition LevelDebug :: Level where "LevelDebug = - 4"
definition LevelInfo :: Level where "LevelInfo = 0"
definition LevelWarn :: Level where "LevelWarn = 4"
definition LevelError :: Level where "LevelError = 8"

text \<open>The \<^verbatim>\<open>switch\<close> of \<^verbatim>\<open>parseLogLevel\<close>, case by case, with its \<^verbatim>\<open>default\<close> branch last.\<close>

definition parseLogLevel :: "string \<Rightarrow> Level" where
  "parseLogLevel levelStr =
     (if levelStr = ''debug'' \<or> levelStr = ''DEBUG'' then LevelDebug
      else if levelStr = ''info'' \<or> levelStr = ''INFO'' then LevelInfo
      else if levelStr = ''warn'' \<or> levelStr = ''WARN''
              \<or> levelStr = ''warning'' \<or> levelStr = ''WARNING'' then LevelWarn
      else if levelStr = ''error'' \<or> levelStr = ''ERROR'' then LevelError
      else LevelInfo)"

text \<open>
  The part of the operating system \<^verbatim>\<open>setupLogger\<close> talks to: the process environment and
  \<^verbatim>\<open>os.OpenFile\<close> with the flags \<^verbatim>\<open>O_CREATE|O_WRONLY|O_APPEND\<close> and mode \<^verbatim>\<open>0644\<close>, which
  either fails with an error text or returns a file handle. \<^verbatim>\<open>os.Getenv\<close> returns the empty
  string for a variable that is not present.
\<close>

type_synonym file_handle = string

record os =
  environ :: "string \<rightharpoonup> string"
  OpenFile :: "string \<Rightarrow> string + file_handle"

definition Getenv :: "os \<Rightarrow> string \<Rightarrow> string" where
  "Getenv sys key = (case environ sys key of None \<Rightarrow> [] | Some v \<Rightarrow> v)"

text \<open>
  An \<^verbatim>\<open>io.Writer\<close> is standard error or an opened file; \<^verbatim>\<open>io.MultiWriter(writers...)\<close>
  is the list of the writers it duplicates its writes to. A logger is its text handler:
  the writer it was given and its minimum level.
\<close>

datatype writer = Stderr | FileWriter file_handle

record logger =
  out :: "writer list"
  level :: Level

text \<open>The package-level variables \<^verbatim>\<open>logWriter\<close> and \<^verbatim>\<open>globalLog\<close> (both nil at start) and
  the default logger of \<^verbatim>\<open>slog\<close>.\<close>

record globals =
  logWriter :: "writer list option"
  globalLog :: "file_handle option"
  slogDefault :: logger

text \<open>\<^verbatim>\<open>fmt.Errorf("failed to open log file %s: %w", logFile, err)\<close>\<close>

datatype log_error = FailedToOpenLogFile string string

definition setupLogger :: "os \<Rightarrow> globals \<Rightarrow> log_error option \<times> globals" where
  "setupLogger sys g =
     (let writers = [Stderr];
          logFile = Getenv sys ''CU_STDERR_FILE''
      in case (if logFile \<noteq> []
               then (case OpenFile sys logFile of
                       Inl err \<Rightarrow> Inl (FailedToOpenLogFile logFile err)
                     | Inr f \<Rightarrow> Inr (g\<lparr>globalLog := Some f\<rparr>, writers @ [FileWriter f]))
               else Inr (g, writers)) of
           Inl e \<Rightarrow> (Some e, g)
         | Inr (g1, writers1) \<Rightarrow>
             (let logLevel = parseLogLevel (Getenv sys ''CU_LOG_LEVEL'');
                  g2 = g1\<lparr>logWriter := Some writers1\<rparr>;
                  handler = \<lparr>out = writers1, level = logLevel\<rparr>
              in (None, g2\<lparr>slogDefault := handler\<rparr>)))"

section \<open>Selective staging (Git plumbing)\<close>

text \<open>
  The helper \<^verbatim>\<open>WriteBinaryFile\<close> of the test suite fills a file of the given size with
  \<^verbatim>\<open>content[i] = byte(i % 256)\<close>.
\<close>

definition WriteBinaryFile_content :: "nat \<Rightarrow> string" where
  "WriteBinaryFile_content n = map (\<lambda>i. char_of (i mod 256)) [0..<n]"

text \<open>
  A worktree as the staging routine sees it: its regular files, each a path relative to
  the worktree with its contents, in walk order, and its directories that hold no file.
\<close>

type_synonym path = string

record worktree =
  files :: "(path \<times> string) list"
  emptyDirs :: "path list"

text \<open>
  Modelled from the spec: the binary test of the selective staging policy, whose code
  (\<^verbatim>\<open>git.go\<close>) is not among the sources. A file is binary when it carries the attribute
  \<^verbatim>\<open>binary\<close> or when a null byte occurs in its first 8 KiB.
\<close>

definition isBinaryFile :: "(path \<Rightarrow> bool) \<Rightarrow> path \<Rightarrow> string \<Rightarrow> bool" where
  "isBinaryFile attrBinary p contents =
     (attrBinary p \<or> CHR 0x00 \<in> set (take 8192 contents))"

text \<open>
  Modelled from the spec: \<^verbatim>\<open>addNonBinary\<close>, whose code is not among the sources. The
  routine walks the worktree, classifies each regular file and issues \<^verbatim>\<open>git add\<close> only
  for the accepted ones; paths matched by \<^verbatim>\<open>.gitignore\<close> are left out by Git itself, and
  empty directories are ignored. \<^verbatim>\<open>git add\<close> of a file that is at \<^verbatim>\<open>HEAD\<close> with the
  same contents stages nothing. The index is the list of staged paths.
\<close>

fun addNonBinaryWalk ::
  "(path \<Rightarrow> bool) \<Rightarrow> (path \<Rightarrow> bool) \<Rightarrow> (path \<rightharpoonup> string) \<Rightarrow> (path \<times> string) list
     \<Rightarrow> path list \<Rightarrow> path list"
where
  "addNonBinaryWalk attrBinary ignored head [] index = index"
| "addNonBinaryWalk attrBinary ignored head ((p, c) # rest) index =
     (if isBinaryFile attrBinary p c \<or> ignored p \<or> head p = Some c \<or> p \<in> set index
      then addNonBinaryWalk attrBinary ignored head rest index
      else addNonBinaryWalk attrBinary ignored head rest (index @ [p]))"

definition addNonBinaryFiles ::
  "(path \<Rightarrow> bool) \<Rightarrow> (path \<Rightarrow> bool) \<Rightarrow> (path \<rightharpoonup> string) \<Rightarrow> worktree
     \<Rightarrow> path list \<Rightarrow> path list"
where
  "addNonBinaryFiles attrBinary ignored head wt index =
     addNonBinaryWalk attrBinary ignored head (files wt) index"

text \<open>
  The whole output of \<^verbatim>\<open>git status --porcelain\<close> as Git prints it for a worktree whose
  tracked files are all present: a line for every staged path (\<^verbatim>\<open>A\<close> for a path new to
  \<^verbatim>\<open>HEAD\<close>, \<^verbatim>\<open>M\<close> otherwise), a line \<^verbatim>\<open> M\<close> for a tracked file that differs from
  \<^verbatim>\<open>HEAD\<close> and is not staged, and a line \<^verbatim>\<open>??\<close> for every file that is neither tracked,
  staged nor ignored. Directories without files print nothing.
\<close>

definition statusPorcelain ::
  "(path \<Rightarrow> bool) \<Rightarrow> (path \<rightharpoonup> string) \<Rightarrow> path list \<Rightarrow> worktree \<Rightarrow> string list"
where
  "statusPorcelain ignored head index wt =
     map (\<lambda>p. (if head p = None then ''A  '' else ''M  '') @ p) index
     @ map (\<lambda>(p, c). '' M '' @ p)
         (filter (\<lambda>(p, c). head p \<noteq> None \<and> head p \<noteq> Some c \<and> p \<notin> set index) (files wt))
     @ map (\<lambda>(p, c). ''?? '' @ p)
         (filter (\<lambda>(p, c). head p = None \<and> p \<notin> set index \<and> \<not> ignored p) (files wt))"

text \<open>
  The error kinds of the environment operations (section 7 of the specification).
\<close>

datatype error =
  GitError string | ContainerError int string | IOError string | NotFound
  | Conflict | Canceled | InvalidArgument

text \<open>
  A branch as \<^verbatim>\<open>git log\<close> shows it: its commits, newest first, each with its message
  and the files it changed. \<^verbatim>\<open>head\<close> is the tree at the tip, \<^verbatim>\<open>index\<close> the staged paths.
\<close>

record commit =
  message :: string
  changed :: "(path \<times> string) list"

record repo =
  log :: "commit list"
  head :: "path \<rightharpoonup> string"
  index :: "path list"

text \<open>
  \<^verbatim>\<open>git commit -m <msg>\<close> as Git behaves: with nothing staged it exits non-zero
  (\<^verbatim>\<open>nothing to commit\<close>, or \<^verbatim>\<open>nothing added to commit but untracked files present\<close>)
  and, by the failure semantics of the plumbing, the calling operation fails with a
  \<^verbatim>\<open>git\<close> error; otherwise the staged files become a new commit at the tip.
\<close>

fun commitTree :: "(path \<rightharpoonup> string) \<Rightarrow> (path \<times> string) list \<Rightarrow> (path \<rightharpoonup> string)" where
  "commitTree h [] = h"
| "commitTree h ((p, c) # rest) = commitTree (h(p \<mapsto> c)) rest"

definition gitCommit :: "string \<Rightarrow> worktree \<Rightarrow> repo \<Rightarrow> error + repo" where
  "gitCommit msg wt r =
     (if index r = [] then Inl (GitError ''nothing to commit'')
      else (let staged = filter (\<lambda>(p, c). p \<in> set (index r)) (files wt)
            in Inr \<lparr>log = \<lparr>message = msg, changed = staged\<rparr> # log r,
                    head = commitTree (head r) staged,
                    index = []\<rparr>))"

text \<open>
  Modelled from the spec: \<^verbatim>\<open>commitIfDirty\<close> (\<^verbatim>\<open>commitWorktreeChanges\<close> in the tests),
  whose code is not among the sources. After staging, query \<^verbatim>\<open>git status --porcelain\<close>;
  if it is empty, return no commit without error; otherwise commit with the message
  \<^verbatim>\<open><Name>\n\n<Explanation>\<close>. The result is the repository and whether a commit was made.
\<close>

definition commitWorktreeChanges ::
  "(path \<Rightarrow> bool) \<Rightarrow> (path \<Rightarrow> bool) \<Rightarrow> worktree \<Rightarrow> string \<Rightarrow> string \<Rightarrow> repo
     \<Rightarrow> error + (repo \<times> bool)"
where
  "commitWorktreeChanges attrBinary ignored wt name explanation r =
     (let r1 = r\<lparr>index := addNonBinaryFiles attrBinary ignored (head r) wt (index r)\<rparr>;
          status = statusPorcelain ignored (head r1) (index r1) wt
      in if status = [] then Inr (r1, False)
         else (case gitCommit (name @ [CHR 0x0A, CHR 0x0A] @ explanation) wt r1 of
                 Inl e \<Rightarrow> Inl e
               | Inr r2 \<Rightarrow> Inr (r2, True)))"

section \<open>Environments\<close>



































section \<open>Scenario\<close>








section \<open>Properties of the logging setup\<close>

lemma Getenv_unset: "environ sys key = None \<Longrightarrow> Getenv sys key = []"
  by (simp add: Getenv_def)

lemma setupLogger_no_file:
  "Getenv sys ''CU_STDERR_FILE'' = [] \<Longrightarrow>
   setupLogger sys g =
     (None, g\<lparr>logWriter := Some [Stderr],
              slogDefault := \<lparr>out = [Stderr],
                              level = parseLogLevel (Getenv sys ''CU_LOG_LEVEL'')\<rparr>\<rparr>)"
  by (simp add: setupLogger_def Let_def)

lemma setupLogger_open_fails:
  "Getenv sys ''CU_STDERR_FILE'' = p \<Longrightarrow> p \<noteq> [] \<Longrightarrow> OpenFile sys p = Inl err \<Longrightarrow>
   setupLogger sys g = (Some (FailedToOpenLogFile p err), g)"
  by (simp add: setupLogger_def Let_def)

lemma setupLogger_open_ok:
  "Getenv sys ''CU_STDERR_FILE'' = p \<Longrightarrow> p \<noteq> [] \<Longrightarrow> OpenFile sys p = Inr f \<Longrightarrow>
   setupLogger sys g =
     (None, g\<lparr>globalLog := Some f, logWriter := Some [Stderr, FileWriter f],
              slogDefault := \<lparr>out = [Stderr, FileWriter f],
                              level = parseLogLevel (Getenv sys ''CU_LOG_LEVEL'')\<rparr>\<rparr>)"
  by (simp add: setupLogger_def Let_def)

text \<open>
  Claim C9. \<^verbatim>\<open>parseLogLevel\<close> returns the level a string names when the string is
  \<^verbatim>\<open>debug\<close>, \<^verbatim>\<open>info\<close>, \<^verbatim>\<open>warn\<close> or \<^verbatim>\<open>error\<close>, written all in lower case or all in upper
  case, with \<^verbatim>\<open>warning\<close> also accepted for warn; for every other string it returns the info
  level. In particular an unset \<^verbatim>\<open>CU_LOG_LEVEL\<close>, which \<^verbatim>\<open>os.Getenv\<close> reads as the empty
  string, gives info: the effective default is info.
\<close>

theorem parseLogLevel_levels:
  "parseLogLevel ''debug'' = LevelDebug \<and> parseLogLevel ''DEBUG'' = LevelDebug
   \<and> parseLogLevel ''info'' = LevelInfo \<and> parseLogLevel ''INFO'' = LevelInfo
   \<and> parseLogLevel ''warn'' = LevelWarn \<and> parseLogLevel ''WARN'' = LevelWarn
   \<and> parseLogLevel ''warning'' = LevelWarn \<and> parseLogLevel ''WARNING'' = LevelWarn
   \<and> parseLogLevel ''error'' = LevelError \<and> parseLogLevel ''ERROR'' = LevelError
   \<and> (s \<notin> {''debug'', ''DEBUG'', ''info'', ''INFO'', ''warn'', ''WARN'',
            ''warning'', ''WARNING'', ''error'', ''ERROR''}
        \<longrightarrow> parseLogLevel s = LevelInfo)
   \<and> (environ sys ''CU_LOG_LEVEL'' = None
        \<longrightarrow> parseLogLevel (Getenv sys ''CU_LOG_LEVEL'') = LevelInfo)
   \<and> LevelDebug < LevelInfo \<and> LevelInfo < LevelWarn \<and> LevelWarn < LevelError"
  by (simp add: parseLogLevel_def Getenv_def LevelDebug_def LevelInfo_def LevelWarn_def
      LevelError_def)

theorem parseLogLevel_levels_witness:
  "''Debug'' \<notin> {''debug'', ''DEBUG'', ''info'', ''INFO'', ''warn'', ''WARN'',
                 ''warning'', ''WARNING'', ''error'', ''ERROR''}
   \<and> parseLogLevel ''Debug'' = LevelInfo
   \<and> environ \<lparr>environ = Map.empty, OpenFile = (\<lambda>p. Inr p)\<rparr> ''CU_LOG_LEVEL'' = None
   \<and> parseLogLevel (Getenv \<lparr>environ = Map.empty, OpenFile = (\<lambda>p. Inr p)\<rparr> ''CU_LOG_LEVEL'')
       = LevelInfo"
  using parseLogLevel_levels [of "''Debug''" "\<lparr>environ = Map.empty, OpenFile = (\<lambda>p. Inr p)\<rparr>"]
  by simp

text \<open>
  Claim C10. \<^verbatim>\<open>setupLogger\<close> returns an error if and only if \<^verbatim>\<open>CU_STDERR_FILE\<close> is set to
  a path (a non-empty value: \<^verbatim>\<open>os.Getenv\<close> reads an empty value as it reads an unset
  variable) that \<^verbatim>\<open>os.OpenFile\<close> cannot open for append. In every successful run standard
  error is among the writers of the installed default logger, whether or not a file was
  configured; when an error is returned the default logger, and with it \<^verbatim>\<open>logWriter\<close> and
  \<^verbatim>\<open>globalLog\<close>, are as they were.
\<close>

theorem setupLogger_error_iff:
  "(fst (setupLogger sys g) \<noteq> None
      \<longleftrightarrow> (\<exists>p. environ sys ''CU_STDERR_FILE'' = Some p \<and> p \<noteq> [] \<and> isl (OpenFile sys p)))
   \<and> (fst (setupLogger sys g) = None
        \<longrightarrow> Stderr \<in> set (out (slogDefault (snd (setupLogger sys g))))
            \<and> logWriter (snd (setupLogger sys g))
                = Some (out (slogDefault (snd (setupLogger sys g)))))
   \<and> (fst (setupLogger sys g) \<noteq> None \<longrightarrow> snd (setupLogger sys g) = g)"
proof (cases "Getenv sys ''CU_STDERR_FILE'' = []")
  case True
  then have "\<not> (\<exists>p. environ sys ''CU_STDERR_FILE'' = Some p \<and> p \<noteq> [])"
    by (auto simp: Getenv_def)
  with True show ?thesis
    by (simp add: setupLogger_no_file)
next
  case False
  then obtain p where p: "environ sys ''CU_STDERR_FILE'' = Some p" "p \<noteq> []"
    "Getenv sys ''CU_STDERR_FILE'' = p"
    by (auto simp: Getenv_def split: option.splits)
  show ?thesis
  proof (cases "OpenFile sys p")
    case (Inl err)
    with p show ?thesis
      by (simp add: setupLogger_open_fails [OF p(3) p(2) Inl])
  next
    case (Inr f)
    with p show ?thesis
      by (simp add: setupLogger_open_ok [OF p(3) p(2) Inr])
  qed
qed

theorem setupLogger_error_iff_witness:
  "fst (setupLogger \<lparr>environ = [''CU_STDERR_FILE'' \<mapsto> ''/nonexistent/cu.log''],
                     OpenFile = (\<lambda>p. Inl ''no such file or directory'')\<rparr>
          \<lparr>logWriter = None, globalLog = None,
           slogDefault = \<lparr>out = [Stderr], level = LevelInfo\<rparr>\<rparr>) \<noteq> None
   \<and> snd (setupLogger \<lparr>environ = [''CU_STDERR_FILE'' \<mapsto> ''/nonexistent/cu.log''],
                       OpenFile = (\<lambda>p. Inl ''no such file or directory'')\<rparr>
            \<lparr>logWriter = None, globalLog = None,
             slogDefault = \<lparr>out = [Stderr], level = LevelInfo\<rparr>\<rparr>)
       = \<lparr>logWriter = None, globalLog = None,
          slogDefault = \<lparr>out = [Stderr], level = LevelInfo\<rparr>\<rparr>
   \<and> fst (setupLogger \<lparr>environ = [''CU_STDERR_FILE'' \<mapsto> ''/tmp/cu.log''],
                       OpenFile = (\<lambda>p. Inr p)\<rparr>
            \<lparr>logWriter = None, globalLog = None,
             slogDefault = \<lparr>out = [], level = LevelWarn\<rparr>\<rparr>) = None
   \<and> Stderr \<in> set (out (slogDefault (snd (setupLogger
            \<lparr>environ = [''CU_STDERR_FILE'' \<mapsto> ''/tmp/cu.log''], OpenFile = (\<lambda>p. Inr p)\<rparr>
            \<lparr>logWriter = None, globalLog = None,
             slogDefault = \<lparr>out = [], level = LevelWarn\<rparr>\<rparr>))))"
  using setupLogger_error_iff
      [of "\<lparr>environ = [''CU_STDERR_FILE'' \<mapsto> ''/nonexistent/cu.log''],
            OpenFile = (\<lambda>p. Inl ''no such file or directory'')\<rparr>"
          "\<lparr>logWriter = None, globalLog = None,
            slogDefault = \<lparr>out = [Stderr], level = LevelInfo\<rparr>\<rparr>"]
    setupLogger_error_iff
      [of "\<lparr>environ = [''CU_STDERR_FILE'' \<mapsto> ''/tmp/cu.log''], OpenFile = (\<lambda>p. Inr p)\<rparr>"
          "\<lparr>logWriter = None, globalLog = None,
            slogDefault = \<lparr>out = [], level = LevelWarn\<rparr>\<rparr>"]
  by simp

section \<open>Properties of selective staging\<close>

lemma WriteBinaryFile_content_binary:
  "0 < n \<Longrightarrow> isBinaryFile attrBinary p (WriteBinaryFile_content n)"
  by (simp add: isBinaryFile_def WriteBinaryFile_content_def upt_conv_Cons char_of_def)

lemma addNonBinaryWalk_set:
  "set (addNonBinaryWalk attrBinary ignored h fs idx) =
     set idx \<union> {p. \<exists>c. (p, c) \<in> set fs \<and> \<not> isBinaryFile attrBinary p c \<and> \<not> ignored p
                         \<and> h p \<noteq> Some c}"
proof (induction fs arbitrary: idx)
  case Nil
  then show ?case by simp
next
  case (Cons f fs)
  obtain p c where f: "f = (p, c)" by (cases f)
  show ?case unfolding f by (auto simp: Cons.IH)
qed

section \<open>Properties of committing\<close>

lemma commitWorktreeChanges_no_files:
  "files wt = [] \<Longrightarrow> index r = [] \<Longrightarrow>
   commitWorktreeChanges attrBinary ignored wt name explanation r = Inr (r, False)"
  by (simp add: commitWorktreeChanges_def addNonBinaryFiles_def statusPorcelain_def Let_def)

lemma gitCommit_changes_something:
  assumes "gitCommit msg wt r = Inr r'" and "set (index r) \<subseteq> fst ` set (files wt)"
  shows "\<exists>c. log r' = c # log r \<and> message c = msg \<and> changed c \<noteq> []"
proof -
  from assms(1) have ne: "index r \<noteq> []"
    by (auto simp: gitCommit_def split: if_splits)
  then obtain p where p: "p \<in> set (index r)" by (cases "index r") auto
  with assms(2) obtain c where "(p, c) \<in> set (files wt)" by auto
  with p have "filter (\<lambda>(p, c). p \<in> set (index r)) (files wt) \<noteq> []"
    by (auto simp: filter_empty_conv)
  with assms(1) ne show ?thesis
    by (auto simp: gitCommit_def Let_def)
qed

lemma commitWorktreeChanges_no_empty_commit:
  assumes "commitWorktreeChanges attrBinary ignored wt name explanation r = Inr (r', made)"
    and "index r = []"
  shows "if made then \<exists>c. log r' = c # log r \<and> changed c \<noteq> [] else log r' = log r"
proof -
  let ?r1 = "r\<lparr>index := addNonBinaryFiles attrBinary ignored (head r) wt (index r)\<rparr>"
  have sub: "set (index ?r1) \<subseteq> fst ` set (files wt)"
    using assms(2) by (force simp: addNonBinaryFiles_def addNonBinaryWalk_set)
  show ?thesis
  proof (cases made)
    case True
    with assms(1) have "gitCommit (name @ [CHR 0x0A, CHR 0x0A] @ explanation) wt ?r1 = Inr r'"
      by (auto simp: commitWorktreeChanges_def Let_def split: if_splits sum.splits)
    from gitCommit_changes_something [OF this sub] True show ?thesis by auto
  next
    case False
    with assms(1) have "r' = ?r1"
      by (auto simp: commitWorktreeChanges_def Let_def split: if_splits sum.splits)
    with False show ?thesis by simp
  qed
qed

text \<open>
  Claim C6, at a worktree that holds a single binary file in a directory of its own:
  staging leaves the index empty, the porcelain status still lists the untracked file,
  so the commit is attempted and Git refuses it. No commit is created, but the operation
  fails instead of returning success.
\<close>

theorem commitWorktreeChanges_binary_only_directory:
  "addNonBinaryFiles (\<lambda>p. False) (\<lambda>p. False) Map.empty
      \<lparr>files = [(''__pycache__/main.cpython-39.pyc'', WriteBinaryFile_content 150)],
       emptyDirs = []\<rparr> [] = []
   \<and> commitWorktreeChanges (\<lambda>p. False) (\<lambda>p. False)
      \<lparr>files = [(''__pycache__/main.cpython-39.pyc'', WriteBinaryFile_content 150)],
       emptyDirs = []\<rparr> ''Test'' ''Binary only''
      \<lparr>log = [], head = Map.empty, index = []\<rparr>
     = Inl (GitError ''nothing to commit'')
   \<and> commitWorktreeChanges (\<lambda>p. False) (\<lambda>p. False)
      \<lparr>files = [], emptyDirs = [''empty1'', ''empty2/nested'']\<rparr> ''Test'' ''Empty dirs''
      \<lparr>log = [], head = Map.empty, index = []\<rparr>
     = Inr (\<lparr>log = [], head = Map.empty, index = []\<rparr>, False)"
proof -
  have b: "isBinaryFile (\<lambda>p. False) ''__pycache__/main.cpython-39.pyc''
              (WriteBinaryFile_content 150)"
    by (rule WriteBinaryFile_content_binary) simp
  show ?thesis
    by (simp add: commitWorktreeChanges_def addNonBinaryFiles_def statusPorcelain_def
        gitCommit_def Let_def b)
qed

section \<open>Properties of the operations on environments\<close>



















end
